theory Spec2Isabelle
  imports Main
begin

section \<open>The MCP server command of the CLI (packages/cli/src/commands/mcp/server.ts)\<close>

text \<open>
  The command loads settings and configuration, asks the configuration for its tool
  registry, registers one protocol endpoint per tool and connects the server to the
  standard streams. Each endpoint's callback builds an invocation of its tool, executes
  it and turns the outcome into a protocol response.

  The embedding follows the source statement by statement. What a call of an imported
  function does is not in this file of the repository, so the outcome of each such call
  is a parameter: it returns a value, throws a value, or never settles.
\<close>

subsection \<open>JavaScript values\<close>

text \<open>
  The data values the adapter handles: \<open>null\<close>, booleans, numbers, strings, arrays
  and plain objects. An object lists its own enumerable properties in the order in which
  the engine enumerates them. A number \<open>JNum n\<close> is the Number with the integer value
  \<open>n\<close>; its rendering below is that of a safe integer (magnitude below \<open>2 ^ 53\<close>),
  fractions and the non-finite numbers are not modelled. A \<open>char\<close> stands for a code
  unit below 256. There is no \<open>undefined\<close>, function or symbol among these values:
  the payload of a result is a string or a structured value that serialises to a string,
  and the source's own comment gives it as a string or a list of parts.
\<close>

datatype jsval =
    JNull
  | JBool bool
  | JNum int
  | JStr string
  | JArr "jsval list"
  | JObj "(string \<times> jsval) list"

text \<open>
  A thrown value is of type \<open>unknown\<close> in the source: an instance of \<open>Error\<close>,
  which has a message string, or a value that is not one, here a data value.
\<close>

datatype thrown = ErrorInstance string | NonError jsval

text \<open>The outcome of calling code that is not the adapter's own.\<close>

datatype 'a outcome = Returns 'a | Throws thrown | Pending

subsection \<open>The built-in conversions the callback uses\<close>

definition digit_char :: "nat \<Rightarrow> char" where
  "digit_char n = ''0123456789'' ! n"

fun digits10 :: "nat \<Rightarrow> string" where
  "digits10 n = (if n < 10 then [digit_char n] else digits10 (n div 10) @ [digit_char (n mod 10)])"

declare digits10.simps [simp del]

text \<open>\<open>Number::toString\<close> of an integer: decimal digits, a minus sign when negative.\<close>

definition Number_toString :: "int \<Rightarrow> string" where
  "Number_toString i = (if i < 0 then ''-'' @ digits10 (nat (- i)) else digits10 (nat i))"

fun join_comma :: "string list \<Rightarrow> string" where
  "join_comma [] = []"
| "join_comma [s] = s"
| "join_comma (s # t # ss) = s @ '','' @ join_comma (t # ss)"

definition hex_digit :: "nat \<Rightarrow> char" where
  "hex_digit n = ''0123456789abcdef'' ! n"

text \<open>
  \<open>QuoteJSONString\<close> of the language standard: the two-character escapes for backspace,
  tab, line feed, form feed, carriage return, the double quote (\<open>0x22\<close>) and the
  backslash (\<open>0x5C\<close>); a \<open>u\<close> escape with four hexadecimal digits for the other
  control characters; every other code unit as it is.
\<close>

definition QuoteJSONChar :: "char \<Rightarrow> string" where
  "QuoteJSONChar c =
     (if c = CHR 0x08 then [CHR 0x5C, CHR ''b'']
      else if c = CHR 0x09 then [CHR 0x5C, CHR ''t'']
      else if c = CHR 0x0A then [CHR 0x5C, CHR ''n'']
      else if c = CHR 0x0C then [CHR 0x5C, CHR ''f'']
      else if c = CHR 0x0D then [CHR 0x5C, CHR ''r'']
      else if c = CHR 0x22 then [CHR 0x5C, CHR 0x22]
      else if c = CHR 0x5C then [CHR 0x5C, CHR 0x5C]
      else if (of_char c :: nat) < 0x20
        then [CHR 0x5C, CHR ''u'', CHR ''0'', CHR ''0'',
              hex_digit (of_char c div 16), hex_digit (of_char c mod 16)]
      else [c])"

definition QuoteJSONString :: "string \<Rightarrow> string" where
  "QuoteJSONString s = [CHR 0x22] @ concat (map QuoteJSONChar s) @ [CHR 0x22]"

text \<open>
  \<open>JSON.stringify\<close> with one argument: no indentation, the elements of an array and
  the members of an object separated by commas, in their order.
\<close>

fun JSON_stringify :: "jsval \<Rightarrow> string" where
  "JSON_stringify JNull = ''null''"
| "JSON_stringify (JBool b) = (if b then ''true'' else ''false'')"
| "JSON_stringify (JNum n) = Number_toString n"
| "JSON_stringify (JStr s) = QuoteJSONString s"
| "JSON_stringify (JArr vs) = ''['' @ join_comma (map JSON_stringify vs) @ '']''"
| "JSON_stringify (JObj kvs) =
     ''{'' @ join_comma (map (\<lambda>(k, v). QuoteJSONString k @ '':'' @ JSON_stringify v) kvs) @ ''}''"

text \<open>
  \<open>String(v)\<close>: a string is itself; an array is its elements joined by commas, a
  \<open>null\<close> element giving the empty string; a plain object is \<open>[object Object]\<close>.
\<close>

fun ToString :: "jsval \<Rightarrow> string" where
  "ToString JNull = ''null''"
| "ToString (JBool b) = (if b then ''true'' else ''false'')"
| "ToString (JNum n) = Number_toString n"
| "ToString (JStr s) = s"
| "ToString (JArr vs) = join_comma (map (\<lambda>v. if v = JNull then [] else ToString v) vs)"
| "ToString (JObj kvs) = ''[object Object]''"

subsection \<open>Tools, results and responses\<close>

text \<open>
  Modelled from the spec: the declarations of the tool, invocation and result types are
  in the core package, not in this file. A tool has a name, an optional description and
  \<open>build\<close>; an invocation has \<open>execute\<close>; a result has the payload \<open>llmContent\<close>,
  a string or a structured value that serialises to a string, and an optional
  \<open>error\<close> object with a \<open>message\<close> string. An error object, when present, is an
  object and so truthy. The callback reads no other field of a result.
\<close>

record tool_error =
  message :: string

record tool_result =
  llmContent :: jsval
  error :: "tool_error option"

text \<open>
  \<open>new AbortController()\<close> allocates: the store holds the \<open>aborted\<close> flag of every
  controller created so far, and a signal is the address of its controller. A tool reads
  its signal in the store it runs in.
\<close>

type_synonym signal = nat

type_synonym store = "bool list"

record invocation =
  execute :: "signal \<Rightarrow> store \<Rightarrow> tool_result outcome"

type_synonym arguments = "(string \<times> jsval) list"

record tool =
  name :: string
  description :: "string option"
  build :: "arguments \<Rightarrow> invocation outcome"

record content_item =
  item_type :: string
  item_text :: string

text \<open>\<open>isError = None\<close> is a response without the field.\<close>

record response =
  content :: "content_item list"
  isError :: "bool option"

subsection \<open>The endpoint callback (lines 76 to 108)\<close>

definition new_AbortController :: "store \<Rightarrow> signal \<times> store" where
  "new_AbortController h = (length h, h @ [False])"

text \<open>\<open>args || {}\<close>: an absent argument object is the empty one.\<close>

definition args_or_empty :: "arguments option \<Rightarrow> arguments" where
  "args_or_empty args = (case args of None \<Rightarrow> [] | Some a \<Rightarrow> a)"

text \<open>
  Lines 83 to 99: the response to a result. The test \<open>if (result.error)\<close> comes
  first; the payload is read after it only.
\<close>

definition respond :: "tool_result \<Rightarrow> response" where
  "respond result =
     (case error result of
        Some err \<Rightarrow>
          \<lparr>content = [\<lparr>item_type = ''text'', item_text = ''Error: '' @ message err\<rparr>],
           isError = Some True\<rparr>
      | None \<Rightarrow>
          (let textContent =
                 (case llmContent result of
                    JStr s \<Rightarrow> s
                  | v \<Rightarrow> JSON_stringify v)
           in \<lparr>content = [\<lparr>item_type = ''text'', item_text = textContent\<rparr>],
               isError = None\<rparr>))"

text \<open>
  The \<open>try\<close> block: a throw inside it is the outcome \<open>Throws\<close>. The controller is
  created when the arguments of \<open>execute\<close> are evaluated, after \<open>build\<close> returned.
\<close>

definition try_block :: "tool \<Rightarrow> arguments option \<Rightarrow> store \<Rightarrow> response outcome \<times> store" where
  "try_block T args h =
     (case build T (args_or_empty args) of
        Throws e \<Rightarrow> (Throws e, h)
      | Pending \<Rightarrow> (Pending, h)
      | Returns toolInvocation \<Rightarrow>
          (case new_AbortController h of
             (sig, h') \<Rightarrow>
               (case execute toolInvocation sig h' of
                  Throws e \<Rightarrow> (Throws e, h')
                | Pending \<Rightarrow> (Pending, h')
                | Returns result \<Rightarrow> (Returns (respond result), h'))))"

text \<open>The \<open>catch\<close> clause: \<open>error instanceof Error ? error.message : String(error)\<close>.\<close>

definition catch_message :: "thrown \<Rightarrow> string" where
  "catch_message e = (case e of ErrorInstance m \<Rightarrow> m | NonError v \<Rightarrow> ToString v)"

definition callback :: "tool \<Rightarrow> arguments option \<Rightarrow> store \<Rightarrow> response outcome \<times> store" where
  "callback T args h =
     (case try_block T args h of
        (Throws e, h') \<Rightarrow>
          (Returns \<lparr>content = [\<lparr>item_type = ''text'',
                                 item_text = ''Internal Error: '' @ catch_message e\<rparr>],
                     isError = Some True\<rparr>, h')
      | r \<Rightarrow> r)"

subsection \<open>The protocol server\<close>

type_synonym endpoint_callback = "arguments option \<Rightarrow> store \<Rightarrow> response outcome \<times> store"

record endpoint =
  ep_name :: string
  ep_description :: string
  ep_inputSchema :: arguments
  ep_callback :: endpoint_callback

record McpServer =
  server_name :: string
  server_version :: string
  registeredTools :: "endpoint list"
  connected :: bool

definition new_McpServer :: "string \<Rightarrow> string \<Rightarrow> McpServer" where
  "new_McpServer n v =
     \<lparr>server_name = n, server_version = v, registeredTools = [], connected = False\<rparr>"

text \<open>
  Modelled from the spec: \<open>McpServer\<close> is the imported protocol library. Registering
  adds an endpoint after those registered before; a name that is registered already is
  an error raised by the protocol layer, which the adapter does not handle.
\<close>

definition registerTool ::
  "McpServer \<Rightarrow> string \<Rightarrow> string \<Rightarrow> arguments \<Rightarrow> endpoint_callback \<Rightarrow> McpServer outcome" where
  "registerTool server n d schema cb =
     (if n \<in> set (map ep_name (registeredTools server))
      then Throws (ErrorInstance (''Tool '' @ n @ '' is already registered''))
      else Returns (server\<lparr>registeredTools := registeredTools server @
             [\<lparr>ep_name = n, ep_description = d, ep_inputSchema = schema, ep_callback = cb\<rparr>]\<rparr>))"

subsection \<open>The command handler (lines 20 to 116)\<close>

text \<open>\<open>tool.description || `Claude Code Gemini CLI ${tool.name} tool`\<close>\<close>

definition endpoint_description :: "tool \<Rightarrow> string" where
  "endpoint_description T =
     (case description T of
        None \<Rightarrow> ''Claude Code Gemini CLI '' @ name T @ '' tool''
      | Some d \<Rightarrow> if d = [] then ''Claude Code Gemini CLI '' @ name T @ '' tool'' else d)"

text \<open>The endpoint that the loop body registers for a tool.\<close>

definition tool_endpoint :: "tool \<Rightarrow> endpoint" where
  "tool_endpoint T =
     \<lparr>ep_name = name T, ep_description = endpoint_description T, ep_inputSchema = [],
      ep_callback = callback T\<rparr>"

text \<open>
  The loop over the tools: one line on the error stream, then the registration. The
  error stream is the list of the lines written so far.
\<close>

fun register_all :: "tool list \<Rightarrow> McpServer \<Rightarrow> string list \<Rightarrow> McpServer outcome \<times> string list" where
  "register_all [] server err = (Returns server, err)"
| "register_all (T # ts) server err =
     (case registerTool server (name T) (endpoint_description T) [] (callback T) of
        Throws e \<Rightarrow> (Throws e, err @ [''Registering MCP tool: '' @ name T])
      | Pending \<Rightarrow> (Pending, err @ [''Registering MCP tool: '' @ name T])
      | Returns server' \<Rightarrow>
          register_all ts server' (err @ [''Registering MCP tool: '' @ name T]))"

text \<open>
  The collaborators of the handler. The settings and the configuration are opaque to
  the adapter; it uses the merged settings, the registry the configuration creates and
  the tools the registry lists.
\<close>

record tool_registry =
  getAllTools :: "tool list"

record config =
  createToolRegistry :: "tool_registry outcome"

record loaded_settings =
  merged :: jsval

type_synonym argv_object = "(string \<times> jsval option) list"

record environment =
  process_cwd :: string
  loadSettings :: "string \<Rightarrow> loaded_settings outcome"
  sessionId :: string
  loadCliConfig :: "jsval \<Rightarrow> string \<Rightarrow> argv_object \<Rightarrow> string \<Rightarrow> config outcome"
  getVersion :: "string option outcome"
  connect :: "unit outcome"

text \<open>The minimal argv object: every field \<open>undefined\<close> but \<open>yolo\<close>.\<close>

definition argv :: argv_object where
  "argv =
     [(''query'', None), (''model'', None), (''sandbox'', None), (''debug'', None),
      (''prompt'', None), (''promptInteractive'', None), (''yolo'', Some (JBool False)),
      (''approvalMode'', None), (''allowedMcpServerNames'', None), (''allowedTools'', None),
      (''experimentalAcp'', None), (''extensions'', None), (''listExtensions'', None),
      (''resume'', None), (''listSessions'', None), (''deleteSession'', None),
      (''includeDirectories'', None), (''screenReader'', None), (''useWriteTodos'', None),
      (''outputFormat'', None), (''fakeResponses'', None), (''recordResponses'', None)]"

text \<open>\<open>version || '1.0.0'\<close>\<close>

definition version_or_default :: "string option \<Rightarrow> string" where
  "version_or_default version =
     (case version of None \<Rightarrow> ''1.0.0'' | Some v \<Rightarrow> if v = [] then ''1.0.0'' else v)"

text \<open>
  The handler returns its outcome and the lines it wrote to the error stream. A
  collaborator that throws ends it with that throw: nothing in the handler catches.
\<close>

definition handler :: "environment \<Rightarrow> McpServer outcome \<times> string list" where
  "handler env =
     (case loadSettings env (process_cwd env) of
        Throws e \<Rightarrow> (Throws e, [])
      | Pending \<Rightarrow> (Pending, [])
      | Returns loadedSettings \<Rightarrow>
     (case loadCliConfig env (merged loadedSettings) (sessionId env) argv (process_cwd env) of
        Throws e \<Rightarrow> (Throws e, [])
      | Pending \<Rightarrow> (Pending, [])
      | Returns config \<Rightarrow>
     (case createToolRegistry config of
        Throws e \<Rightarrow> (Throws e, [])
      | Pending \<Rightarrow> (Pending, [])
      | Returns toolRegistry \<Rightarrow>
     (case getVersion env of
        Throws e \<Rightarrow> (Throws e, [])
      | Pending \<Rightarrow> (Pending, [])
      | Returns version \<Rightarrow>
     (case register_all (getAllTools toolRegistry)
             (new_McpServer ''claude-code-gemini-cli-server'' (version_or_default version)) [] of
        (Throws e, err) \<Rightarrow> (Throws e, err)
      | (Pending, err) \<Rightarrow> (Pending, err)
      | (Returns server, err) \<Rightarrow>
     (case connect env of
        Throws e \<Rightarrow> (Throws e, err)
      | Pending \<Rightarrow> (Pending, err)
      | Returns u \<Rightarrow>
          (Returns (server\<lparr>connected := True\<rparr>),
           err @ [''Claude Code Gemini CLI MCP server started on stdio''])))))))"

text \<open>The tools the handler registers, when it gets that far.\<close>

definition registry_tools :: "environment \<Rightarrow> tool list option" where
  "registry_tools env =
     (case loadSettings env (process_cwd env) of
        Returns loadedSettings \<Rightarrow>
          (case loadCliConfig env (merged loadedSettings) (sessionId env) argv (process_cwd env) of
             Returns config \<Rightarrow>
               (case createToolRegistry config of
                  Returns toolRegistry \<Rightarrow>
                    (case getVersion env of
                       Returns version \<Rightarrow> Some (getAllTools toolRegistry)
                     | _ \<Rightarrow> None)
                | _ \<Rightarrow> None)
           | _ \<Rightarrow> None)
      | _ \<Rightarrow> None)"

subsection \<open>The spec's wording of the message of a thrown value\<close>


subsection \<open>Concrete tools and environments\<close>

definition returning_tool :: "string \<Rightarrow> string option \<Rightarrow> tool_result \<Rightarrow> tool" where
  "returning_tool n d r =
     \<lparr>name = n, description = d,
      build = (\<lambda>a. Returns \<lparr>execute = (\<lambda>sig h. Returns r)\<rparr>)\<rparr>"



text \<open>A tool that reports the signal it was given and that signal's flag.\<close>

definition signal_probe_tool :: tool where
  "signal_probe_tool =
     \<lparr>name = ''probe'', description = None,
      build = (\<lambda>a. Returns \<lparr>execute = (\<lambda>sig h. Returns
                 \<lparr>llmContent = JArr [JNum (int sig), JBool (h ! sig)], error = None\<rparr>)\<rparr>)\<rparr>"

definition environment_with :: "tool list \<Rightarrow> environment" where
  "environment_with ts =
     \<lparr>process_cwd = ''/work'',
      loadSettings = (\<lambda>cwd. Returns \<lparr>merged = JObj []\<rparr>),
      sessionId = ''session'',
      loadCliConfig = (\<lambda>settings sid av cwd.
         Returns \<lparr>createToolRegistry = Returns \<lparr>getAllTools = ts\<rparr>\<rparr>),
      getVersion = Returns (Some ''0.1.0''),
      connect = Returns ()\<rparr>"

definition example_tools :: "tool list" where
  "example_tools =
     [returning_tool ''read_file'' (Some ''Reads a file'')
        \<lparr>llmContent = JStr ''hello'', error = None\<rparr>,
      returning_tool ''list'' (Some [])
        \<lparr>llmContent = JObj [(''a'', JNum 1)], error = None\<rparr>,
      signal_probe_tool]"

subsection \<open>A notion for the proofs\<close>


section \<open>The structured-to-text encoding loses nothing\<close>

text \<open>
  Two values with the same \<open>JSON.stringify\<close> text are the same value, elements and
  members in the same order. The proof reads an encoded value off the front of a text:
  a value's text followed by a delimiter determines the value and what follows it.
\<close>

subsection \<open>Numbers\<close>
















subsection \<open>Quoted strings\<close>








subsection \<open>Arrays and objects\<close>









section \<open>The callback\<close>

subsection \<open>What the callback does after \<open>build\<close>\<close>

lemma callback_after_build:
  assumes "build T (args_or_empty args) = Returns ti"
  shows "callback T args h =
     ((case execute ti (length h) (h @ [False]) of
         Returns r \<Rightarrow> Returns (respond r)
       | Throws e \<Rightarrow> Returns \<lparr>content = [\<lparr>item_type = ''text'',
                                 item_text = ''Internal Error: '' @ catch_message e\<rparr>],
                     isError = Some True\<rparr>
       | Pending \<Rightarrow> Pending), h @ [False])"
  using assms
  by (simp add: callback_def try_block_def new_AbortController_def split: outcome.splits)

lemma callback_build_throws:
  assumes "build T (args_or_empty args) = Throws e"
  shows "callback T args h =
     (Returns \<lparr>content = [\<lparr>item_type = ''text'',
                            item_text = ''Internal Error: '' @ catch_message e\<rparr>],
               isError = Some True\<rparr>, h)"
  using assms by (simp add: callback_def try_block_def)

lemma callback_build_pending:
  assumes "build T (args_or_empty args) = Pending"
  shows "callback T args h = (Pending, h)"
  using assms by (simp add: callback_def try_block_def)


text \<open>
  The callback returns a response exactly when neither \<open>build\<close> nor \<open>execute\<close>
  stays pending.
\<close>

lemma callback_returns_iff:
  "(\<exists>r. fst (callback T args h) = Returns r) \<longleftrightarrow>
     build T (args_or_empty args) \<noteq> Pending \<and>
     (\<forall>ti. build T (args_or_empty args) = Returns ti \<longrightarrow>
        execute ti (length h) (h @ [False]) \<noteq> Pending)"
proof (cases "build T (args_or_empty args)")
  case (Returns ti)
  then show ?thesis
    by (cases "execute ti (length h) (h @ [False])") (simp_all add: callback_after_build)
next
  case (Throws v)
  then show ?thesis by (simp add: callback_build_throws)
next
  case Pending
  then show ?thesis by (simp add: callback_build_pending)
qed

subsection \<open>A result that carries an error\<close>

text \<open>
  Claim C2. When \<open>execute\<close> returns a result that carries an error, the callback
  returns a response with \<open>isError = true\<close> whose content is one text item, the text
  being \<open>Error: \<close> followed by the error's message.
\<close>

theorem tool_error_response:
  assumes "build T (args_or_empty args) = Returns ti"
    and "execute ti (length h) (h @ [False]) = Returns r"
    and "error r = Some e"
  shows "fst (callback T args h) =
     Returns \<lparr>content = [\<lparr>item_type = ''text'', item_text = ''Error: '' @ message e\<rparr>],
              isError = Some True\<rparr>"
  using assms by (simp add: callback_after_build respond_def)

theorem tool_error_response_witness:
  "fst (callback (returning_tool ''t'' None
          \<lparr>llmContent = JNull, error = Some \<lparr>message = ''bad input''\<rparr>\<rparr>)
        (Some [(''k'', JNum 1)]) []) =
     Returns \<lparr>content = [\<lparr>item_type = ''text'', item_text = ''Error: bad input''\<rparr>],
              isError = Some True\<rparr>"
  using tool_error_response [of
      "returning_tool ''t'' None \<lparr>llmContent = JNull, error = Some \<lparr>message = ''bad input''\<rparr>\<rparr>"
      "Some [(''k'', JNum 1)]"
      "\<lparr>execute = (\<lambda>sig h. Returns \<lparr>llmContent = JNull, error = Some \<lparr>message = ''bad input''\<rparr>\<rparr>)\<rparr>"
      "[]" "\<lparr>llmContent = JNull, error = Some \<lparr>message = ''bad input''\<rparr>\<rparr>"
      "\<lparr>message = ''bad input''\<rparr>"]
  by (simp add: returning_tool_def)

text \<open>
  Claim C10. When a result carries both an error and a payload, the callback returns
  the error response: the response is the same whatever the payload is.
\<close>

theorem error_takes_precedence:
  assumes "build T (args_or_empty args) = Returns ti"
    and "execute ti (length h) (h @ [False]) = Returns r"
    and "error r = Some e"
  shows "fst (callback T args h) = Returns (respond (r\<lparr>llmContent := c\<rparr>)) \<and>
         respond (r\<lparr>llmContent := c\<rparr>) =
           \<lparr>content = [\<lparr>item_type = ''text'', item_text = ''Error: '' @ message e\<rparr>],
            isError = Some True\<rparr>"
  using assms by (simp add: callback_after_build respond_def)

theorem error_takes_precedence_witness:
  "fst (callback (returning_tool ''t'' None
          \<lparr>llmContent = JStr ''payload'', error = Some \<lparr>message = ''bad input''\<rparr>\<rparr>) None []) =
     Returns (respond \<lparr>llmContent = JObj [(''a'', JNum 1)],
                       error = Some \<lparr>message = ''bad input''\<rparr>\<rparr>) \<and>
   respond \<lparr>llmContent = JObj [(''a'', JNum 1)], error = Some \<lparr>message = ''bad input''\<rparr>\<rparr> =
     \<lparr>content = [\<lparr>item_type = ''text'', item_text = ''Error: bad input''\<rparr>],
      isError = Some True\<rparr>"
  using error_takes_precedence [of
      "returning_tool ''t'' None
          \<lparr>llmContent = JStr ''payload'', error = Some \<lparr>message = ''bad input''\<rparr>\<rparr>"
      None
      "\<lparr>execute = (\<lambda>sig h. Returns
          \<lparr>llmContent = JStr ''payload'', error = Some \<lparr>message = ''bad input''\<rparr>\<rparr>)\<rparr>"
      "[]" "\<lparr>llmContent = JStr ''payload'', error = Some \<lparr>message = ''bad input''\<rparr>\<rparr>"
      "\<lparr>message = ''bad input''\<rparr>" "JObj [(''a'', JNum 1)]"]
  by (simp add: returning_tool_def)

subsection \<open>A thrown value\<close>




subsection \<open>A successful result\<close>

text \<open>
  Claim C4. When \<open>execute\<close> returns a result without an error whose payload is a
  string, the callback returns one text item holding that string as it is, and the
  response has no \<open>isError\<close> field.
\<close>

theorem string_payload_response:
  assumes "build T (args_or_empty args) = Returns ti"
    and "execute ti (length h) (h @ [False]) = Returns r"
    and "error r = None"
    and "llmContent r = JStr s"
  shows "fst (callback T args h) =
     Returns \<lparr>content = [\<lparr>item_type = ''text'', item_text = s\<rparr>], isError = None\<rparr>"
  using assms by (simp add: callback_after_build respond_def)

theorem string_payload_response_witness:
  "fst (callback (returning_tool ''t'' None \<lparr>llmContent = JStr ''hello'', error = None\<rparr>)
         (Some [(''k'', JNum 1)]) []) =
     Returns \<lparr>content = [\<lparr>item_type = ''text'', item_text = ''hello''\<rparr>], isError = None\<rparr>"
  using string_payload_response [of
      "returning_tool ''t'' None \<lparr>llmContent = JStr ''hello'', error = None\<rparr>"
      "Some [(''k'', JNum 1)]"
      "\<lparr>execute = (\<lambda>sig h. Returns \<lparr>llmContent = JStr ''hello'', error = None\<rparr>)\<rparr>"
      "[]" "\<lparr>llmContent = JStr ''hello'', error = None\<rparr>" "''hello''"]
  by (simp add: returning_tool_def)



subsection \<open>The shape of every response\<close>

text \<open>
  Claim C9. Every response the callback returns, on each of its three branches, has a
  content list of exactly one item, and the type of that item is \<open>text\<close>.
\<close>

theorem response_single_text_item:
  assumes "fst (callback T args h) = Returns r"
  shows "\<exists>t. content r = [\<lparr>item_type = ''text'', item_text = t\<rparr>]"
proof (cases "build T (args_or_empty args)")
  case (Returns ti)
  with assms show ?thesis
    by (cases "execute ti (length h) (h @ [False])")
       (auto simp add: callback_after_build respond_def Let_def split: option.splits)
next
  case (Throws v)
  with assms show ?thesis by (auto simp add: callback_build_throws)
next
  case Pending
  with assms show ?thesis by (simp add: callback_build_pending)
qed

theorem response_single_text_item_witness:
  "fst (callback signal_probe_tool None [True]) =
     Returns \<lparr>content = [\<lparr>item_type = ''text'', item_text = ''[1,false]''\<rparr>],
              isError = None\<rparr> \<and>
   (\<exists>t. content \<lparr>content = [\<lparr>item_type = ''text'', item_text = ''[1,false]''\<rparr>],
                   isError = None\<rparr> = [\<lparr>item_type = ''text'', item_text = t\<rparr>])"
proof -
  have a: "fst (callback signal_probe_tool None [True]) =
     Returns \<lparr>content = [\<lparr>item_type = ''text'', item_text = ''[1,false]''\<rparr>],
              isError = None\<rparr>"
    by (simp add: callback_def try_block_def signal_probe_tool_def new_AbortController_def
        respond_def Number_toString_def digits10.simps digit_char_def)
  from response_single_text_item [OF a] a show ?thesis by simp
qed

subsection \<open>The cancellation signal\<close>

text \<open>
  The callback adds flags to the store and changes none: each call that gets past
  \<open>build\<close> creates one controller, not aborted.
\<close>

lemma callback_store: "\<exists>n. snd (callback T args h) = h @ replicate n False"
proof (cases "build T (args_or_empty args)")
  case (Returns ti)
  have "snd (callback T args h) = h @ replicate 1 False"
    using Returns
    by (simp add: callback_def try_block_def new_AbortController_def split: outcome.splits)
  then show ?thesis by blast
next
  case (Throws v)
  then have "snd (callback T args h) = h @ replicate 0 False"
    by (simp add: callback_def try_block_def)
  then show ?thesis by blast
next
  case Pending
  then have "snd (callback T args h) = h @ replicate 0 False"
    by (simp add: callback_def try_block_def)
  then show ?thesis by blast
qed

text \<open>
  Claim C7. The signal passed to \<open>execute\<close> is that of a controller created for
  this invocation: its address \<open>length h\<close> is not one of the store before the call,
  and its flag is unset when \<open>execute\<close> runs and after the callback has returned.
  No later callback changes it, nor any other flag: later calls only add unset flags.
\<close>

theorem abort_signal_fresh_untriggered:
  assumes "build T (args_or_empty args) = Returns ti"
  shows "try_block T args h =
           (map_outcome respond (execute ti (length h) (h @ [False])), h @ [False]) \<and>
         snd (callback T args h) = h @ [False] \<and>
         (\<forall>U a k. \<exists>n. snd (callback U a (h @ [False] @ k)) = h @ [False] @ k @ replicate n False)"
proof -
  have "try_block T args h =
           (map_outcome respond (execute ti (length h) (h @ [False])), h @ [False])"
    using assms
    by (simp add: try_block_def new_AbortController_def split: outcome.splits)
  moreover have "snd (callback T args h) = h @ [False]"
    using assms
    by (simp add: callback_def try_block_def new_AbortController_def split: outcome.splits)
  moreover have "\<exists>n. snd (callback U a (h @ [False] @ k)) = h @ [False] @ k @ replicate n False"
    for U a k
    using callback_store [of U a "h @ [False] @ k"] by simp
  ultimately show ?thesis by blast
qed

theorem abort_signal_fresh_untriggered_witness:
  "build signal_probe_tool (args_or_empty None) = Returns \<lparr>execute = (\<lambda>sig h. Returns
                 \<lparr>llmContent = JArr [JNum (int sig), JBool (h ! sig)], error = None\<rparr>)\<rparr> \<and>
   callback signal_probe_tool None [False, False] =
     (Returns \<lparr>content = [\<lparr>item_type = ''text'', item_text = ''[2,false]''\<rparr>], isError = None\<rparr>,
      [False, False, False])"
proof -
  have b: "build signal_probe_tool (args_or_empty None) = Returns \<lparr>execute = (\<lambda>sig h. Returns
                 \<lparr>llmContent = JArr [JNum (int sig), JBool (h ! sig)], error = None\<rparr>)\<rparr>"
    by (simp add: signal_probe_tool_def)
  have "fst (callback signal_probe_tool None [False, False]) = 
     Returns \<lparr>content = [\<lparr>item_type = ''text'', item_text = ''[2,false]''\<rparr>], isError = None\<rparr>"
    using abort_signal_fresh_untriggered [OF b, of "[False, False]"]
    by (simp add: callback_def respond_def Number_toString_def digits10.simps digit_char_def)
  moreover have "snd (callback signal_probe_tool None [False, False]) = [False, False, False]"
    using abort_signal_fresh_untriggered [OF b, of "[False, False]"] by simp
  ultimately show ?thesis using b by (simp add: prod_eq_iff)
qed

section \<open>The handler\<close>

subsection \<open>The registration loop\<close>

text \<open>
  The loop completes exactly when no name is registered twice; then it has added the
  endpoint of each tool, in the order of the list, and written one line per tool.
\<close>

lemma register_all_Returns:
  "register_all ts server err = (Returns server', err') \<longleftrightarrow>
     distinct (map name ts) \<and>
     set (map name ts) \<inter> set (map ep_name (registeredTools server)) = {} \<and>
     server' = server\<lparr>registeredTools := registeredTools server @ map tool_endpoint ts\<rparr> \<and>
     err' = err @ map (\<lambda>T. ''Registering MCP tool: '' @ name T) ts"
proof (induction ts arbitrary: server err)
  case Nil
  then show ?case by auto
next
  case (Cons T ts)
  show ?case
  proof (cases "name T \<in> set (map ep_name (registeredTools server))")
    case True
    then show ?thesis by (auto simp add: registerTool_def)
  next
    case False
    then show ?thesis
      by (auto simp add: registerTool_def Cons.IH tool_endpoint_def)
  qed
qed

lemma handler_Returns_D:
  assumes "registry_tools env = Some tools"
    and "handler env = (Returns server, err)"
  shows "distinct (map name tools)"
    and "registeredTools server = map tool_endpoint tools"
    and "err = map (\<lambda>T. ''Registering MCP tool: '' @ name T) tools @
             [''Claude Code Gemini CLI MCP server started on stdio'']"
  using assms
  by (auto simp add: registry_tools_def handler_def register_all_Returns new_McpServer_def
      split: outcome.splits prod.splits)

text \<open>
  A completed startup got the tools of the registry, and the last line it wrote is the
  closing line of the handler.
\<close>

lemma handler_Returns_registry:
  assumes "handler env = (Returns server, err)"
  shows "\<exists>tools. registry_tools env = Some tools"
  using assms
  by (auto simp add: handler_def registry_tools_def split: outcome.splits prod.splits)

lemma completed_startup_closing_line:
  assumes "handler env = (Returns server, err)"
  shows "err \<noteq> [] \<and> last err = ''Claude Code Gemini CLI MCP server started on stdio''"
proof -
  from handler_Returns_registry [OF assms] obtain tools
    where "registry_tools env = Some tools" by blast
  from handler_Returns_D(3) [OF this assms] show ?thesis by simp
qed

text \<open>
  The handler completes when the collaborators return, the names of the tools are
  distinct and the transport connects.
\<close>

lemma handler_completes:
  assumes "registry_tools env = Some tools"
    and "distinct (map name tools)"
    and "connect env = Returns u"
  shows "\<exists>server. handler env =
     (Returns server, map (\<lambda>T. ''Registering MCP tool: '' @ name T) tools @
             [''Claude Code Gemini CLI MCP server started on stdio'']) \<and>
     registeredTools server = map tool_endpoint tools"
proof -
  from assms(1) obtain ls cfg reg v where
    *: "loadSettings env (process_cwd env) = Returns ls"
       "loadCliConfig env (merged ls) (sessionId env) argv (process_cwd env) = Returns cfg"
       "createToolRegistry cfg = Returns reg" "getVersion env = Returns v"
       "getAllTools reg = tools"
    by (auto simp add: registry_tools_def split: outcome.splits)
  have "register_all tools (new_McpServer ''claude-code-gemini-cli-server'' (version_or_default v)) [] =
      (Returns ((new_McpServer ''claude-code-gemini-cli-server'' (version_or_default v))
         \<lparr>registeredTools := map tool_endpoint tools\<rparr>),
       map (\<lambda>T. ''Registering MCP tool: '' @ name T) tools)"
    using assms(2) by (simp add: register_all_Returns new_McpServer_def)
  then show ?thesis
    using * assms(3) by (simp add: handler_def)
qed

lemma filter_distinct_once:
  assumes "distinct (map f xs)" and "x \<in> set xs"
  shows "length (filter (\<lambda>y. f y = f x) xs) = 1"
  using assms
proof (induction xs)
  case Nil
  then show ?case by simp
next
  case (Cons a xs)
  show ?case
  proof (cases "f a = f x")
    case True
    with Cons.prems have "\<forall>y \<in> set xs. f y \<noteq> f x" by (auto simp add: image_iff)
    then have "filter (\<lambda>y. f y = f x) xs = []" by (simp add: filter_empty_conv)
    with True show ?thesis by simp
  next
    case False
    with Cons show ?thesis by auto
  qed
qed

lemma example_registry:
  "registry_tools (environment_with ts) = Some ts"
  by (simp add: registry_tools_def environment_with_def)

lemma example_names: "map name example_tools = [''read_file'', ''list'', ''probe'']"
  by (simp add: example_tools_def returning_tool_def signal_probe_tool_def)

text \<open>
  Every endpoint of a started server is the endpoint of a tool of the registry, and its
  callback is \<open>callback\<close> of that tool: what is proved of \<open>callback T\<close> holds of
  every registered endpoint.
\<close>

lemma registered_callback:
  assumes "registry_tools env = Some tools"
    and "handler env = (Returns server, err)"
    and "e \<in> set (registeredTools server)"
  shows "\<exists>T \<in> set tools. e = tool_endpoint T \<and> ep_name e = name T \<and> ep_callback e = callback T"
  using handler_Returns_D(2) [OF assms(1,2)] assms(3)
  by (auto simp add: tool_endpoint_def)

subsection \<open>One endpoint per tool\<close>

text \<open>
  Claim C1. After startup the names of the registered endpoints are the names of the
  registry's tools, in the order of \<open>getAllTools()\<close>; for every tool exactly one
  endpoint has its name; and every endpoint has the name of a tool.
\<close>

theorem endpoints_match_registry:
  assumes "registry_tools env = Some tools"
    and "handler env = (Returns server, err)"
  shows "map ep_name (registeredTools server) = map name tools \<and>
         (\<forall>T \<in> set tools.
            length (filter (\<lambda>e. ep_name e = name T) (registeredTools server)) = 1) \<and>
         (\<forall>e \<in> set (registeredTools server). ep_name e \<in> name ` set tools)"
proof -
  have d: "distinct (map name tools)"
    and r: "registeredTools server = map tool_endpoint tools"
    using handler_Returns_D [OF assms] by simp_all
  have n: "ep_name (tool_endpoint T) = name T" for T
    by (simp add: tool_endpoint_def)
  have "map ep_name (registeredTools server) = map name tools"
    by (simp add: r n)
  moreover have "length (filter (\<lambda>e. ep_name e = name T) (registeredTools server)) = 1"
    if "T \<in> set tools" for T
  proof -
    have "filter (\<lambda>e. ep_name e = name T) (map tool_endpoint tools) =
          map tool_endpoint (filter (\<lambda>U. name U = name T) tools)"
      by (simp add: filter_map comp_def n)
    then show ?thesis
      using filter_distinct_once [OF d that] by (simp add: r)
  qed
  moreover have "\<forall>e \<in> set (registeredTools server). ep_name e \<in> name ` set tools"
    by (auto simp add: r n)
  ultimately show ?thesis by blast
qed

theorem endpoints_match_registry_witness:
  "registry_tools (environment_with example_tools) = Some example_tools \<and>
   (\<exists>server err. handler (environment_with example_tools) = (Returns server, err) \<and>
      map ep_name (registeredTools server) = [''read_file'', ''list'', ''probe''])"
proof -
  have a: "registry_tools (environment_with example_tools) = Some example_tools"
    by (rule example_registry)
  have d: "distinct (map name example_tools)"
    by (simp add: example_names)
  have c: "connect (environment_with example_tools) = Returns ()"
    by (simp add: environment_with_def)
  from handler_completes [OF a d c] obtain server err
    where h: "handler (environment_with example_tools) = (Returns server, err)"
    by blast
  from endpoints_match_registry [OF a h]
  have n: "map ep_name (registeredTools server) = [''read_file'', ''list'', ''probe'']"
    by (simp add: example_names)
  from h n have "\<exists>server err. handler (environment_with example_tools) = (Returns server, err) \<and>
      map ep_name (registeredTools server) = [''read_file'', ''list'', ''probe'']"
    by (intro exI conjI)
  with a show ?thesis by (rule conjI)
qed

subsection \<open>The description of an endpoint\<close>

text \<open>
  Claim C6. For every tool of the registry, the description of the endpoint registered
  under its name is the tool's own description when that is present and not empty;
  otherwise it is the generated string made of the product name, the tool's name and
  the word \<open>tool\<close>.
\<close>

theorem endpoint_description_metadata:
  assumes "registry_tools env = Some tools"
    and "handler env = (Returns server, err)"
    and "T \<in> set tools"
    and "e \<in> set (registeredTools server)"
    and "ep_name e = name T"
  shows "(\<forall>d. description T = Some d \<and> d \<noteq> [] \<longrightarrow> ep_description e = d) \<and>
         (description T = None \<or> description T = Some [] \<longrightarrow>
            ep_description e = ''Claude Code Gemini CLI '' @ name T @ '' tool'')"
proof -
  from registered_callback [OF assms(1,2,4)] obtain U
    where U: "U \<in> set tools" "e = tool_endpoint U" "ep_name e = name U"
    by blast
  have "inj_on name (set tools)"
    using handler_Returns_D(1) [OF assms(1,2)] by (simp add: distinct_map)
  with U(1,3) assms(3,5) have "U = T"
    by (simp add: inj_on_def)
  with U(2) show ?thesis
    by (auto simp add: tool_endpoint_def endpoint_description_def)
qed

theorem endpoint_description_metadata_witness:
  "registry_tools (environment_with example_tools) = Some example_tools \<and>
   (\<exists>server err e f.
      handler (environment_with example_tools) = (Returns server, err) \<and>
      e \<in> set (registeredTools server) \<and> ep_name e = ''read_file'' \<and>
      ep_description e = ''Reads a file'' \<and>
      f \<in> set (registeredTools server) \<and> ep_name f = ''list'' \<and>
      ep_description f = ''Claude Code Gemini CLI list tool'')"
proof -
  define T where "T = returning_tool ''read_file'' (Some ''Reads a file'')
        \<lparr>llmContent = JStr ''hello'', error = None\<rparr>"
  define U where "U = returning_tool ''list'' (Some [])
        \<lparr>llmContent = JObj [(''a'', JNum 1)], error = None\<rparr>"
  have a: "registry_tools (environment_with example_tools) = Some example_tools"
    by (rule example_registry)
  have d: "distinct (map name example_tools)"
    by (simp add: example_names)
  have c: "connect (environment_with example_tools) = Returns ()"
    by (simp add: environment_with_def)
  from handler_completes [OF a d c] obtain server err
    where h: "handler (environment_with example_tools) = (Returns server, err)"
      and r: "registeredTools server = map tool_endpoint example_tools"
    by blast
  have T: "T \<in> set example_tools" and U: "U \<in> set example_tools"
    by (simp_all add: example_tools_def T_def U_def)
  have eT: "tool_endpoint T \<in> set (registeredTools server)"
    and eU: "tool_endpoint U \<in> set (registeredTools server)"
    using T U by (simp_all add: r)
  have nT: "ep_name (tool_endpoint T) = name T" and nU: "ep_name (tool_endpoint U) = name U"
    by (simp_all add: tool_endpoint_def)
  have "ep_description (tool_endpoint T) = ''Reads a file''"
    using endpoint_description_metadata [OF a h T eT nT]
    by (simp add: T_def returning_tool_def)
  moreover have "ep_description (tool_endpoint U) = ''Claude Code Gemini CLI list tool''"
    using endpoint_description_metadata [OF a h U eU nU]
    by (simp add: U_def returning_tool_def)
  moreover have "ep_name (tool_endpoint T) = ''read_file''" "ep_name (tool_endpoint U) = ''list''"
    by (simp_all add: tool_endpoint_def T_def U_def returning_tool_def)
  ultimately have "\<exists>server err e f.
      handler (environment_with example_tools) = (Returns server, err) \<and>
      e \<in> set (registeredTools server) \<and> ep_name e = ''read_file'' \<and>
      ep_description e = ''Reads a file'' \<and>
      f \<in> set (registeredTools server) \<and> ep_name f = ''list'' \<and>
      ep_description f = ''Claude Code Gemini CLI list tool''"
    using h eT eU by (intro exI conjI)
  with a show ?thesis by (rule conjI)
qed

subsection \<open>An empty registry\<close>

text \<open>
  Claim C8, as stated, has no line on the error stream when the registry is empty.
  The handler writes its closing line after the transport has connected, whatever the
  registry holds: an empty registry gives a completed startup with one line written.
\<close>

theorem empty_registry_counterexample:
  "registry_tools (environment_with []) = Some [] \<and>
   fst (handler (environment_with [])) =
     Returns \<lparr>server_name = ''claude-code-gemini-cli-server'', server_version = ''0.1.0'',
              registeredTools = [], connected = True\<rparr> \<and>
   snd (handler (environment_with [])) \<noteq> []"
  by (simp add: registry_tools_def handler_def environment_with_def new_McpServer_def
      version_or_default_def)

text \<open>
  Claim C8, amended. When \<open>getAllTools()\<close> returns the empty list and the transport
  connects, startup completes with no endpoint registered and no line for a tool: the
  error stream holds the closing line of the handler and nothing else.
\<close>

theorem empty_registry_startup:
  assumes "registry_tools env = Some []"
    and "connect env = Returns u"
  shows "\<exists>server. handler env =
            (Returns server, [''Claude Code Gemini CLI MCP server started on stdio'']) \<and>
          registeredTools server = []"
  using handler_completes [OF assms(1) _ assms(2)] by simp

theorem empty_registry_startup_witness:
  "registry_tools (environment_with []) = Some [] \<and>
   connect (environment_with []) = Returns () \<and>
   (\<exists>server. handler (environment_with []) =
            (Returns server, [''Claude Code Gemini CLI MCP server started on stdio'']) \<and>
          registeredTools server = [])"
proof -
  have a: "registry_tools (environment_with []) = Some []"
    by (simp add: registry_tools_def environment_with_def)
  have b: "connect (environment_with []) = Returns ()"
    by (simp add: environment_with_def)
  from empty_registry_startup [OF a b] a b show ?thesis by simp
qed

end
